theory Spec2Isabelle
  imports Complex_Main "HOL-Library.AList" "HOL-Library.Multiset"
begin

section \<open>JavaScript values used by the services\<close>

text \<open>
  A JavaScript number is modelled as an exact real extended with the three special values
  of IEEE arithmetic. Rounding, overflow of finite results and the sign of zero are not
  modelled: a finite result is the exact real, and zero counts as positive zero when it
  is a divisor.
\<close>

datatype jsnum = NaN | NegInf | PosInf | Fin real

fun jneg :: "jsnum \<Rightarrow> jsnum" where
  "jneg NaN = NaN"
| "jneg NegInf = PosInf"
| "jneg PosInf = NegInf"
| "jneg (Fin x) = Fin (- x)"

fun jadd :: "jsnum \<Rightarrow> jsnum \<Rightarrow> jsnum" where
  "jadd NaN b = NaN"
| "jadd a NaN = NaN"
| "jadd PosInf NegInf = NaN"
| "jadd NegInf PosInf = NaN"
| "jadd PosInf b = PosInf"
| "jadd a PosInf = PosInf"
| "jadd NegInf b = NegInf"
| "jadd a NegInf = NegInf"
| "jadd (Fin x) (Fin y) = Fin (x + y)"

definition jsub :: "jsnum \<Rightarrow> jsnum \<Rightarrow> jsnum" where
  "jsub a b = jadd a (jneg b)"

fun jmul :: "jsnum \<Rightarrow> jsnum \<Rightarrow> jsnum" where
  "jmul NaN b = NaN"
| "jmul a NaN = NaN"
| "jmul (Fin x) (Fin y) = Fin (x * y)"
| "jmul (Fin x) PosInf = (if x = 0 then NaN else if 0 < x then PosInf else NegInf)"
| "jmul (Fin x) NegInf = (if x = 0 then NaN else if 0 < x then NegInf else PosInf)"
| "jmul PosInf (Fin y) = (if y = 0 then NaN else if 0 < y then PosInf else NegInf)"
| "jmul NegInf (Fin y) = (if y = 0 then NaN else if 0 < y then NegInf else PosInf)"
| "jmul PosInf PosInf = PosInf"
| "jmul PosInf NegInf = NegInf"
| "jmul NegInf PosInf = NegInf"
| "jmul NegInf NegInf = PosInf"

fun jdiv :: "jsnum \<Rightarrow> jsnum \<Rightarrow> jsnum" where
  "jdiv NaN b = NaN"
| "jdiv a NaN = NaN"
| "jdiv (Fin x) (Fin y) =
     (if y = 0 then (if x = 0 then NaN else if 0 < x then PosInf else NegInf)
      else Fin (x / y))"
| "jdiv (Fin x) PosInf = Fin 0"
| "jdiv (Fin x) NegInf = Fin 0"
| "jdiv PosInf (Fin y) = (if 0 \<le> y then PosInf else NegInf)"
| "jdiv NegInf (Fin y) = (if 0 \<le> y then NegInf else PosInf)"
| "jdiv PosInf b = NaN"
| "jdiv NegInf b = NaN"

text \<open>The comparison \<open>a > b\<close>: false whenever an operand is NaN.\<close>

fun jgt :: "jsnum \<Rightarrow> jsnum \<Rightarrow> bool" where
  "jgt NaN b = False"
| "jgt a NaN = False"
| "jgt PosInf PosInf = False"
| "jgt PosInf b = True"
| "jgt a PosInf = False"
| "jgt NegInf b = False"
| "jgt a NegInf = True"
| "jgt (Fin x) (Fin y) = (y < x)"

text \<open>A number is falsy exactly when it is zero or NaN.\<close>

fun truthy_num :: "jsnum \<Rightarrow> bool" where
  "truthy_num NaN = False"
| "truthy_num (Fin x) = (x \<noteq> 0)"
| "truthy_num a = True"

text \<open>\<open>a || d\<close> on numbers.\<close>

definition num_or :: "jsnum \<Rightarrow> jsnum \<Rightarrow> jsnum" where
  "num_or a d = (if truthy_num a then a else d)"

text \<open>
  An awaited call either returns or rejects; a rejection is an exception at the
  \<open>await\<close>.
\<close>

datatype 'a outcome = Thrown | Returned 'a

datatype error = TypeError | NotInitialized | NotAnArray

section \<open>WalletAnalyticsService: risk assessment\<close>

datatype wallet_type = Team | Bundle | Regular | Unknown

datatype risk = Low | Medium | High

text \<open>
  The reason of a classification is a literal string, except for the concentration rule,
  whose template \<open>Holds ${percentage.toFixed(2)}% of total supply\<close> is kept as the
  percentage it formats.
\<close>

datatype reason = HoldsPercent jsnum | Literal string

text \<open>
  A holder record as \<open>getTopHolders\<close> builds it. The address is copied from the
  provider's \<open>owner_address\<close> field and is \<open>undefined\<close> (None) when the provider
  omitted it.
\<close>

record holder =
  address :: "string option"
  balance :: jsnum
  balanceRaw :: jsnum
  percentage :: jsnum

text \<open>
  A bucket entry \<open>{ ...holder, ...classification }\<close>; the entry pushed by the
  \<open>catch\<close> branch has no \<open>riskLevel\<close>.
\<close>

record classified =
  cholder :: holder
  w_type :: wallet_type
  w_reason :: reason
  w_riskLevel :: "risk option"

record risk_assessment =
  riskLevel :: risk
  recommendation :: string
  teamSupplyPercentage :: jsnum
  bundleSupplyPercentage :: jsnum
  totalRiskySupply :: jsnum

text \<open>\<open>wallets.reduce((sum, wallet) => sum + wallet.percentage, 0)\<close>\<close>

definition supplyOf :: "classified list \<Rightarrow> jsnum" where
  "supplyOf ws = foldl (\<lambda>s w. jadd s (percentage (cholder w))) (Fin 0) ws"

definition assessRisk :: "classified list \<Rightarrow> classified list \<Rightarrow> risk_assessment" where
  "assessRisk teamWallets bundleWallets =
     (let teamSupply = supplyOf teamWallets;
          bundleSupply = supplyOf bundleWallets;
          (lvl, rec) =
            (if jgt teamSupply (Fin 20) then
               (High, ''HIGH RISK: Team controls significant portion of supply.'')
             else if jgt bundleSupply (Fin 15) then
               (High, ''HIGH RISK: Large bundle wallet presence detected.'')
             else if jgt teamSupply (Fin 10) \<or> jgt bundleSupply (Fin 10) then
               (Medium, ''MEDIUM RISK: Monitor team and bundle wallet activity.'')
             else (Low, ''Token appears to have low risk factors.''))
      in \<lparr> riskLevel = lvl, recommendation = rec,
           teamSupplyPercentage = teamSupply,
           bundleSupplyPercentage = bundleSupply,
           totalRiskySupply = jadd teamSupply bundleSupply \<rparr>)"


section \<open>WalletAnalyticsService: classification of holders\<close>

text \<open>\<open>String.prototype.toLowerCase\<close>, on ASCII letters.\<close>

definition lower_char :: "char \<Rightarrow> char" where
  "lower_char c =
     (case map_of (zip ''ABCDEFGHIJKLMNOPQRSTUVWXYZ'' ''abcdefghijklmnopqrstuvwxyz'') c of
        None \<Rightarrow> c
      | Some l \<Rightarrow> l)"

definition toLowerCase :: "string \<Rightarrow> string" where
  "toLowerCase s = map lower_char s"

text \<open>A string is falsy when it is \<open>undefined\<close>/\<open>null\<close> (None) or empty.\<close>

fun truthy_str :: "string option \<Rightarrow> bool" where
  "truthy_str None = False"
| "truthy_str (Some s) = (s \<noteq> [])"

record deployer =
  d_address :: "string option"
  d_txHash :: string
  d_blockNumber :: string

record classification =
  ctype :: wallet_type
  creason :: reason
  criskLevel :: risk

text \<open>A transaction of the explorer's \<open>txlist\<close> action, and its response.\<close>

record explorer_tx =
  tx_hash :: string
  tx_from :: string
  tx_to :: string
  tx_timeStamp :: int

record explorer_response =
  status :: string
  result :: "explorer_tx list"

datatype tx_kind = Sell | Buy

record wallet_tx =
  wt_hash :: string
  wt_from :: string
  wt_to :: string
  wt_timestamp :: int
  wt_type :: tx_kind

record bundle_pattern =
  isBundle :: bool
  bp_reason :: string

text \<open>
  The network, as the classifier sees it: the explorer's answer to the two \<open>txlist\<close>
  requests (ascending for the funding check, descending for the wallet history), per
  wallet address and blockchain, and the clock.
\<close>

record classifier_env =
  txlistAsc :: "string \<Rightarrow> string \<Rightarrow> explorer_response outcome"
  txlistDesc :: "string \<Rightarrow> string \<Rightarrow> explorer_response outcome"
  dateNow :: int

text \<open>\<open>checkDeployerFunding\<close>: the whole body is inside \<open>try\<close>, any failure gives false.\<close>

definition checkDeployerFunding ::
  "classifier_env \<Rightarrow> string \<Rightarrow> string \<Rightarrow> string \<Rightarrow> bool" where
  "checkDeployerFunding env walletAddress deployerAddress blockchain =
     (case txlistAsc env walletAddress blockchain of
        Thrown \<Rightarrow> False
      | Returned response \<Rightarrow>
          if status response = ''1'' then
            list_ex (\<lambda>tx. toLowerCase (tx_from tx) = toLowerCase deployerAddress)
              (result response)
          else False)"

definition getWalletTransactions ::
  "classifier_env \<Rightarrow> string \<Rightarrow> string \<Rightarrow> wallet_tx list" where
  "getWalletTransactions env addr blockchain =
     (case txlistDesc env addr blockchain of
        Thrown \<Rightarrow> []
      | Returned response \<Rightarrow>
          if status response = ''1'' then
            map (\<lambda>tx. \<lparr> wt_hash = tx_hash tx, wt_from = tx_from tx, wt_to = tx_to tx,
                        wt_timestamp = tx_timeStamp tx * 1000,
                        wt_type = (if toLowerCase (tx_from tx) = toLowerCase addr
                                   then Sell else Buy) \<rparr>)
              (result response)
          else [])"

definition detectBundlePattern ::
  "classifier_env \<Rightarrow> string \<Rightarrow> string \<Rightarrow> bundle_pattern" where
  "detectBundlePattern env addr blockchain =
     (let transactions = getWalletTransactions env addr blockchain;
          sellTransactions = filter (\<lambda>tx. wt_type tx = Sell) transactions;
          buyTransactions = filter (\<lambda>tx. wt_type tx = Buy) transactions;
          hasQuickSells =
            list_ex (\<lambda>tx. dateNow env - wt_timestamp tx < 24 * 60 * 60 * 1000)
              sellTransactions;
          hasLowActivity = (length transactions < 10);
          hasHighSellRatio = (length buyTransactions < length sellTransactions)
      in if hasQuickSells \<and> hasLowActivity then
           \<lparr> isBundle = True, bp_reason = ''Quick sell pattern detected'' \<rparr>
         else if hasHighSellRatio \<and> hasLowActivity then
           \<lparr> isBundle = True, bp_reason = ''High sell ratio with low activity'' \<rparr>
         else \<lparr> isBundle = False, bp_reason = ''Normal activity pattern'' \<rparr>)"

text \<open>\<open>deployer?.address\<close> when it is truthy.\<close>

definition deployerAddress :: "deployer option \<Rightarrow> string option" where
  "deployerAddress dep =
     (case dep of
        None \<Rightarrow> None
      | Some d \<Rightarrow> if truthy_str (d_address d) then d_address d else None)"

text \<open>The network calls a classification makes, in order.\<close>

datatype call = FundingCheck string string | PatternCheck string

text \<open>
  \<open>classifyWallet\<close>. The first statement logs \<open>address.slice(0, 8)\<close>, which raises a
  TypeError when the holder has no address. The result is paired with the calls made.
  The \<open>metadata\<close> argument is not read by the source and is left out.
\<close>

definition classifyWallet ::
  "classifier_env \<Rightarrow> holder \<Rightarrow> deployer option \<Rightarrow> string
     \<Rightarrow> (error + classification) \<times> call list" where
  "classifyWallet env h dep blockchain =
     (case address h of
        None \<Rightarrow> (Inl TypeError, [])
      | Some addr \<Rightarrow>
          if jgt (percentage h) (Fin (1 / 10)) then
            (Inr \<lparr> ctype = Team, creason = HoldsPercent (percentage h),
                   criskLevel = (if jgt (percentage h) (Fin 10) then High else Medium) \<rparr>,
             [])
          else
            (let dAddr = deployerAddress dep;
                 funding = (case dAddr of None \<Rightarrow> []
                            | Some da \<Rightarrow> [FundingCheck addr da]);
                 fundedByDeployer =
                   (case dAddr of None \<Rightarrow> False
                    | Some da \<Rightarrow> checkDeployerFunding env addr da blockchain)
             in if fundedByDeployer then
                  (Inr \<lparr> ctype = Bundle, creason = Literal ''Funded by contract deployer'',
                         criskLevel = High \<rparr>, funding)
                else
                  (let bundlePattern = detectBundlePattern env addr blockchain
                   in if isBundle bundlePattern then
                        (Inr \<lparr> ctype = Bundle,
                               creason = Literal (bp_reason bundlePattern),
                               criskLevel = Medium \<rparr>,
                         funding @ [PatternCheck addr])
                      else
                        (Inr \<lparr> ctype = Regular,
                               creason = Literal ''Normal wallet activity'',
                               criskLevel = Low \<rparr>,
                         funding @ [PatternCheck addr]))))"

record buckets =
  teamWallets :: "classified list"
  bundleWallets :: "classified list"
  regularWallets :: "classified list"

record classify_result =
  r_teamWallets :: "classified list"
  r_bundleWallets :: "classified list"
  r_regularWallets :: "classified list"
  r_riskAssessment :: risk_assessment

definition merge_entry :: "holder \<Rightarrow> classification \<Rightarrow> classified" where
  "merge_entry h c =
     \<lparr> cholder = h, w_type = ctype c, w_reason = creason c,
       w_riskLevel = Some (criskLevel c) \<rparr>"

text \<open>One iteration of the \<open>for\<close> loop of \<open>classifyWallets\<close>, with its \<open>try\<close>/\<open>catch\<close>.\<close>

definition classify_step ::
  "classifier_env \<Rightarrow> deployer option \<Rightarrow> string \<Rightarrow> buckets \<Rightarrow> holder \<Rightarrow> buckets" where
  "classify_step env dep blockchain b h =
     (case fst (classifyWallet env h dep blockchain) of
        Inr c \<Rightarrow>
          (case ctype c of
             Team \<Rightarrow> b\<lparr> teamWallets := teamWallets b @ [merge_entry h c] \<rparr>
           | Bundle \<Rightarrow> b\<lparr> bundleWallets := bundleWallets b @ [merge_entry h c] \<rparr>
           | _ \<Rightarrow> b\<lparr> regularWallets := regularWallets b @ [merge_entry h c] \<rparr>)
      | Inl e \<Rightarrow>
          b\<lparr> regularWallets := regularWallets b @
               [\<lparr> cholder = h, w_type = Unknown,
                  w_reason = Literal ''Classification failed'',
                  w_riskLevel = None \<rparr>] \<rparr>)"

definition empty_result :: classify_result where
  "empty_result =
     \<lparr> r_teamWallets = [], r_bundleWallets = [], r_regularWallets = [],
       r_riskAssessment = assessRisk [] [] \<rparr>"

text \<open>
  \<open>classifyWallets\<close>. The holders argument is None when it is not an array. Before the
  loop, and outside any \<open>try\<close>, the function logs \<open>h.address.slice(0, 8)\<close> for each of
  the first five holders; that raises a TypeError when one of them has no address.
\<close>

definition classifyWallets ::
  "classifier_env \<Rightarrow> holder list option \<Rightarrow> deployer option \<Rightarrow> string
     \<Rightarrow> error + classify_result" where
  "classifyWallets env holders dep blockchain =
     (case holders of
        None \<Rightarrow> Inr empty_result
      | Some hs \<Rightarrow>
          if length hs = 0 then Inr empty_result
          else if list_ex (\<lambda>h. address h = None) (take 5 hs) then Inl TypeError
          else
            (let b = foldl (classify_step env dep blockchain)
                       \<lparr> teamWallets = [], bundleWallets = [], regularWallets = [] \<rparr> hs
             in Inr \<lparr> r_teamWallets = teamWallets b,
                      r_bundleWallets = bundleWallets b,
                      r_regularWallets = regularWallets b,
                      r_riskAssessment = assessRisk (teamWallets b) (bundleWallets b) \<rparr>))"


section \<open>WalletAnalyticsService: holders and their share of the supply\<close>

text \<open>
  A field read through \<open>field || default\<close> and then parsed: Falsy when the field is
  \<open>undefined\<close>, \<open>null\<close>, the empty string, 0 or NaN, and otherwise Truthy with the
  result of the parse (\<open>parseInt\<close> for decimals, None standing for NaN;
  \<open>parseFloat\<close> for the total supply).
\<close>

datatype 'a field = Falsy | Truthy 'a

record metadata =
  decimals :: "int option field"
  totalSupply :: "jsnum field"

text \<open>An entry of the holder provider's answer; the balance is \<open>parseFloat(holder.balance)\<close>.\<close>

record owner =
  owner_address :: "string option"
  owner_balance :: jsnum

text \<open>A token transfer of the explorer's \<open>tokentx\<close> action; the value is \<open>parseFloat(tx.value)\<close>.\<close>

record transfer =
  tr_to :: "string option"
  tr_value :: jsnum

record transfers_response =
  t_status :: string
  t_result :: "transfer list"

text \<open>
  The network, as the holder fetcher sees it. \<open>getTopHolders\<close> and the fallback each
  fetch the metadata themselves, so there are two metadata answers. An answer Thrown
  stands for any exception raised before the response is inspected.
\<close>

record holders_env =
  moralisOwners :: "owner list option outcome"
  metadataFirst :: "metadata outcome"
  metadataFallback :: "metadata outcome"
  tokentx :: "transfers_response outcome"

text \<open>\<open>parseInt(metadata.decimals || '18')\<close> and \<open>parseFloat(metadata.totalSupply || '0')\<close>\<close>

definition parsedDecimals :: "metadata \<Rightarrow> int option" where
  "parsedDecimals md = (case decimals md of Falsy \<Rightarrow> Some 18 | Truthy d \<Rightarrow> d)"

definition parsedTotalSupply :: "metadata \<Rightarrow> jsnum" where
  "parsedTotalSupply md = (case totalSupply md of Falsy \<Rightarrow> Fin 0 | Truthy n \<Rightarrow> n)"

text \<open>\<open>Math.pow(10, decimals)\<close> for an integer or NaN exponent.\<close>

definition pow10 :: "int option \<Rightarrow> jsnum" where
  "pow10 d =
     (case d of
        None \<Rightarrow> NaN
      | Some k \<Rightarrow> Fin (if 0 \<le> k then 10 ^ nat k else 1 / 10 ^ nat (- k)))"

definition totalSupplyFormatted :: "metadata \<Rightarrow> jsnum" where
  "totalSupplyFormatted md = jdiv (parsedTotalSupply md) (pow10 (parsedDecimals md))"

text \<open>
  The body of the \<open>map\<close> callback that builds a holder record; \<open>getTopHolders\<close> and
  \<open>getHoldersFromTransactions\<close> contain the same statements.
\<close>

definition holderRecord :: "int option \<Rightarrow> jsnum \<Rightarrow> string option \<Rightarrow> jsnum \<Rightarrow> holder" where
  "holderRecord decs totalSupplyFmt addr balRaw =
     (let balanceFormatted = jdiv balRaw (pow10 decs);
          pct = (if jgt totalSupplyFmt (Fin 0)
                 then jmul (jdiv balanceFormatted totalSupplyFmt) (Fin 100)
                 else Fin 0)
      in \<lparr> address = addr, balance = balanceFormatted, balanceRaw = balRaw,
           percentage = pct \<rparr>)"

definition zeroAddress :: string where
  "zeroAddress = ''0x0000000000000000000000000000000000000000''"

text \<open>
  The \<open>forEach\<close> over the transfers: a \<open>Map\<close> from recipient to the sum of the values
  received, in insertion order.
\<close>

definition addTransfer :: "(string \<times> jsnum) list \<Rightarrow> transfer \<Rightarrow> (string \<times> jsnum) list" where
  "addTransfer holders tx =
     (case tr_to tx of
        None \<Rightarrow> holders
      | Some recipient \<Rightarrow>
          if recipient \<noteq> [] \<and> recipient \<noteq> zeroAddress then
            (let current = (case map_of holders recipient of
                              None \<Rightarrow> Fin 0
                            | Some v \<Rightarrow> num_or v (Fin 0))
             in AList.update recipient (jadd current (tr_value tx)) holders)
          else holders)"

text \<open>
  \<open>sort((a, b) => b.balance - a.balance)\<close>: \<open>a\<close> goes before \<open>b\<close> when the comparator
  is negative; a NaN comparator counts as zero. The sort is stable. Where the comparator
  is not a consistent order (NaN balances) the engine may order differently.
\<close>

definition goesBefore :: "holder \<Rightarrow> holder \<Rightarrow> bool" where
  "goesBefore a b = jgt (Fin 0) (jsub (balance b) (balance a))"

fun insertHolder :: "holder \<Rightarrow> holder list \<Rightarrow> holder list" where
  "insertHolder x [] = [x]"
| "insertHolder x (y # ys) =
     (if goesBefore y x then y # insertHolder x ys else x # y # ys)"

definition sortByBalance :: "holder list \<Rightarrow> holder list" where
  "sortByBalance hs = foldr insertHolder hs []"

definition getHoldersFromTransactions :: "holders_env \<Rightarrow> holder list" where
  "getHoldersFromTransactions env =
     (case metadataFallback env of
        Thrown \<Rightarrow> []
      | Returned md \<Rightarrow>
          (case tokentx env of
             Thrown \<Rightarrow> []
           | Returned response \<Rightarrow>
               if t_status response = ''1'' then
                 take 100 (sortByBalance
                   (map (\<lambda>(addr, balRaw).
                          holderRecord (parsedDecimals md) (totalSupplyFormatted md)
                            (Some addr) balRaw)
                      (foldl addTransfer [] (t_result response))))
               else []))"

text \<open>
  \<open>getTopHolders\<close>. Every exception inside its \<open>try\<close> leads to the fallback: a failed
  request, an empty answer, a failed metadata fetch, and the log of the first three
  holders, which evaluates \<open>h.address.slice(0, 8)\<close>.
\<close>

definition getTopHolders :: "holders_env \<Rightarrow> holder list" where
  "getTopHolders env =
     (case moralisOwners env of
        Thrown \<Rightarrow> getHoldersFromTransactions env
      | Returned None \<Rightarrow> getHoldersFromTransactions env
      | Returned (Some owners) \<Rightarrow>
          if 0 < length owners then
            (case metadataFirst env of
               Thrown \<Rightarrow> getHoldersFromTransactions env
             | Returned md \<Rightarrow>
                 (let holders =
                        map (\<lambda>ow. holderRecord (parsedDecimals md) (totalSupplyFormatted md)
                                    (owner_address ow) (owner_balance ow))
                          owners
                  in if list_ex (\<lambda>h. address h = None) (take 3 holders)
                     then getHoldersFromTransactions env
                     else holders))
          else getHoldersFromTransactions env)"


section \<open>RealTimeMonitor: state and lifecycle\<close>

text \<open>
  A monitored wallet, as \<open>initialize\<close> stores it. The other properties spread from the
  classified wallet are not read by the monitor and are left out.
\<close>

record wallet =
  mw_address :: string
  mw_type :: string
  mw_tokenAddress :: "string option"
  mw_network :: "string option"
  lastBalance :: "jsnum option"
  lastChecked :: "int option"
  alertCount :: jsnum
  totalVolumeSold :: jsnum

text \<open>
  The callback and the period handed to \<open>setInterval\<close>. The class body defines
  \<open>startPolling\<close> twice (lines 142 and 255); in a JavaScript class a later method
  definition of the same name replaces the earlier one, so a call of
  \<open>this.startPolling()\<close> runs the definition of line 255.
\<close>

datatype cycle = CheckAllWalletsStaggered | CheckAllWallets

record interval_timer =
  handler :: cycle
  period_ms :: nat

definition startPolling_line142 :: interval_timer where
  "startPolling_line142 = \<lparr> handler = CheckAllWalletsStaggered, period_ms = 20000 \<rparr>"

definition startPolling_line255 :: interval_timer where
  "startPolling_line255 = \<lparr> handler = CheckAllWallets, period_ms = 30000 \<rparr>"

text \<open>
  The monitor object, together with the interval timers of the host that are active
  (\<open>timers\<close>) and the next timer handle the host will give out; handles start at 1.
\<close>

record monitor =
  tokenAddress :: "string option"
  blockchain :: "string option"
  monitoredWallets :: "(string \<times> wallet) list"
  isMonitoring :: bool
  monitorInterval :: "nat option"
  timers :: "(nat \<times> interval_timer) list"
  nextHandle :: nat

definition constructor :: monitor where
  "constructor =
     \<lparr> tokenAddress = None, blockchain = None, monitoredWallets = [],
       isMonitoring = False, monitorInterval = None, timers = [], nextHandle = 1 \<rparr>"

text \<open>An element of the \<open>wallets\<close> argument: \<open>null\<close> (None) or an object.\<close>

record wallet_arg =
  arg_address :: "string option"
  arg_type :: string

definition addWallet ::
  "string option \<Rightarrow> string option \<Rightarrow> (string \<times> wallet) list \<Rightarrow> wallet_arg option
     \<Rightarrow> (string \<times> wallet) list" where
  "addWallet tokAddr chain ws arg =
     (case arg of
        None \<Rightarrow> ws
      | Some w \<Rightarrow>
          (case arg_address w of
             None \<Rightarrow> ws
           | Some a \<Rightarrow>
               if a = [] then ws
               else AList.update (toLowerCase a)
                      \<lparr> mw_address = a, mw_type = arg_type w, mw_tokenAddress = tokAddr,
                        mw_network = chain, lastBalance = None, lastChecked = None,
                        alertCount = Fin 0, totalVolumeSold = Fin 0 \<rparr> ws))"

text \<open>\<open>initialize\<close>; the \<open>wallets\<close> argument is None when it is not an array.\<close>

definition initialize ::
  "string option \<Rightarrow> string option \<Rightarrow> wallet_arg option list option \<Rightarrow> monitor
     \<Rightarrow> (error + bool) \<times> monitor" where
  "initialize tokAddr chain wallets m =
     (let m1 = m\<lparr> tokenAddress := tokAddr, blockchain := chain, monitoredWallets := [] \<rparr>
      in case wallets of
           None \<Rightarrow> (Inl NotAnArray, m1)
         | Some ws \<Rightarrow>
             if length ws = 0 then (Inr True, m1)
             else (Inr True,
                   m1\<lparr> monitoredWallets := foldl (addWallet tokAddr chain) [] ws \<rparr>))"

text \<open>\<open>setInterval\<close> and \<open>clearInterval\<close> of the host.\<close>

definition setInterval :: "interval_timer \<Rightarrow> monitor \<Rightarrow> nat \<times> monitor" where
  "setInterval t m =
     (nextHandle m,
      m\<lparr> timers := timers m @ [(nextHandle m, t)], nextHandle := nextHandle m + 1 \<rparr>)"

definition clearInterval :: "nat \<Rightarrow> monitor \<Rightarrow> monitor" where
  "clearInterval h m = m\<lparr> timers := filter (\<lambda>p. fst p \<noteq> h) (timers m) \<rparr>"

definition startPolling :: "monitor \<Rightarrow> monitor" where
  "startPolling m =
     (let (h, m1) = setInterval startPolling_line255 m
      in m1\<lparr> monitorInterval := Some h \<rparr>)"

definition startMonitoring :: "monitor \<Rightarrow> (error + bool) \<times> monitor" where
  "startMonitoring m =
     (if \<not> truthy_str (tokenAddress m) \<or> \<not> truthy_str (blockchain m) then
        (Inl NotInitialized, m)
      else if length (monitoredWallets m) = 0 then (Inr False, m)
      else if isMonitoring m then (Inr True, m)
      else (Inr True, startPolling (m\<lparr> isMonitoring := True \<rparr>)))"

text \<open>\<open>stopMonitoring\<close>; a handle is falsy when it is \<open>null\<close> or 0.\<close>

definition stopMonitoring :: "monitor \<Rightarrow> monitor" where
  "stopMonitoring m =
     (let m1 = (case monitorInterval m of
                  None \<Rightarrow> m
                | Some h \<Rightarrow>
                    if h = 0 then m
                    else (clearInterval h m)\<lparr> monitorInterval := None \<rparr>)
      in m1\<lparr> isMonitoring := False, monitoredWallets := [] \<rparr>)"

text \<open>
  A call of \<open>initialize\<close>, \<open>startMonitoring\<close> or \<open>stopMonitoring\<close>, and a sequence of
  such calls on a new monitor. \<open>startMonitoringLegacy\<close> is not modelled.
\<close>

datatype api_call =
    CallInitialize "string option" "string option" "wallet_arg option list option"
  | CallStartMonitoring
  | CallStopMonitoring

fun perform :: "monitor \<Rightarrow> api_call \<Rightarrow> monitor" where
  "perform m (CallInitialize tokAddr chain wallets) = snd (initialize tokAddr chain wallets m)"
| "perform m CallStartMonitoring = snd (startMonitoring m)"
| "perform m CallStopMonitoring = stopMonitoring m"

definition performAll :: "api_call list \<Rightarrow> monitor" where
  "performAll calls = foldl perform constructor calls"

section \<open>RealTimeMonitor: the poll cycle\<close>

text \<open>
  What a poll cycle does, as a schedule: a batch is a set of wallet checks started
  together and awaited together by \<open>Promise.all\<close>; a pause is a \<open>setTimeout\<close> delay in
  milliseconds that is awaited before the cycle goes on.
\<close>

datatype step = Batch "wallet list" | Pause nat

text \<open>\<open>wallets.slice(i, i + batchSize)\<close>\<close>

definition slice :: "nat \<Rightarrow> nat \<Rightarrow> 'a list \<Rightarrow> 'a list" where
  "slice i j xs = take (j - i) (drop i xs)"

function staggeredFrom :: "nat \<Rightarrow> wallet list \<Rightarrow> step list" where
  "staggeredFrom i wallets =
     (if i < length wallets then
        Batch (slice i (i + 3) wallets)
          # (if i + 3 < length wallets then [Pause 2000] else [])
          @ staggeredFrom (i + 3) wallets
      else [])"
  by pat_completeness auto
termination
  by (relation "measure (\<lambda>(i, wallets). length wallets - i)") auto

declare staggeredFrom.simps [simp del]

definition checkAllWalletsStaggered :: "monitor \<Rightarrow> step list" where
  "checkAllWalletsStaggered m = staggeredFrom 0 (map snd (monitoredWallets m))"

definition checkAllWallets :: "monitor \<Rightarrow> step list" where
  "checkAllWallets m = [Batch (map snd (monitoredWallets m))]"

text \<open>The cycle a timer runs when it fires.\<close>

definition runTimer :: "interval_timer \<Rightarrow> monitor \<Rightarrow> step list" where
  "runTimer t m =
     (case handler t of
        CheckAllWalletsStaggered \<Rightarrow> checkAllWalletsStaggered m
      | CheckAllWallets \<Rightarrow> checkAllWallets m)"

text \<open>The poll cycles of the monitor: one for each active timer, when that timer fires.\<close>

definition pollCycles :: "monitor \<Rightarrow> step list list" where
  "pollCycles m = map (\<lambda>p. runTimer (snd p) m) (timers m)"


section \<open>RealTimeMonitor: checking one wallet\<close>

text \<open>
  The value the awaited \<open>getTokenBalance\<close> call yields. \<open>WithFormatted n\<close> is an object
  whose \<open>formatted\<close> property parses (\<open>parseFloat\<close>) to \<open>n\<close>, NaN when the property
  is missing or is not numeric. \<open>Number n\<close> is a bare number, which is what
  \<open>getTokenBalance\<close> of the analytics service returns.
\<close>

datatype balance_value = Undefined | Null | Number jsnum | WithFormatted jsnum

fun truthy_balance :: "balance_value \<Rightarrow> bool" where
  "truthy_balance Undefined = False"
| "truthy_balance Null = False"
| "truthy_balance (Number n) = truthy_num n"
| "truthy_balance (WithFormatted n) = True"

text \<open>
  \<open>parseFloat(currentBalance.formatted)\<close> for a truthy value: a number has no
  \<open>formatted\<close> property, and \<open>parseFloat(undefined)\<close> is NaN.
\<close>

fun parseFormatted :: "balance_value \<Rightarrow> jsnum" where
  "parseFormatted (WithFormatted n) = n"
| "parseFormatted v = NaN"

text \<open>\<open>getTokenBalance\<close> of the analytics service, given the provider's answer.\<close>

definition getTokenBalance :: "jsnum list option outcome \<Rightarrow> balance_value" where
  "getTokenBalance response =
     (case response of
        Thrown \<Rightarrow> Number (Fin 0)
      | Returned None \<Rightarrow> Number (Fin 0)
      | Returned (Some []) \<Rightarrow> Number (Fin 0)
      | Returned (Some (b # bs)) \<Rightarrow> Number b)"

record history_tx =
  h_hash :: string
  h_from :: string
  h_to :: string
  h_timestamp :: int

record alert =
  a_id :: "jsnum option"
  a_walletAddress :: string
  a_walletType :: string
  a_tokenAddress :: "string option"
  a_network :: "string option"
  a_amountSold :: jsnum
  a_usdValue :: jsnum
  a_previousBalance :: "jsnum option"
  a_newBalance :: jsnum
  a_changePercentage :: jsnum
  a_destination :: "string option"
  a_transactionHash :: "string option"
  a_timestamp :: int
  a_explorerLink :: "string option"
  a_alertCount :: "jsnum option"
  a_totalVolumeSold :: "jsnum option"

text \<open>
  What a wallet check does besides changing the wallet: the call of the sell handling,
  and the alert given to the delivery channels, to the store and to the subscribers.
\<close>

datatype event =
    SellHandling jsnum jsnum
  | SendAlert alert
  | StoreAlert alert
  | NotifySubscribers alert

text \<open>
  The collaborators of one wallet check: the awaited calls, each of which may reject,
  the price lookup of the monitor (which catches its own failures), the clock at the
  three places it is read, and \<open>Math.random()\<close>.
\<close>

record check_env =
  balanceFetch :: "balance_value outcome"
  transactionHistory :: "history_tx list outcome"
  usdValueOf :: "jsnum outcome"
  identifyDEX :: "string outcome"
  tokenPrice :: jsnum
  nowScan :: int
  nowAlert :: int
  nowDone :: int
  random :: real

text \<open>\<open>amount / wallet.lastBalance\<close>, where \<open>null\<close> converts to 0.\<close>

definition overLastBalance :: "jsnum \<Rightarrow> jsnum option \<Rightarrow> jsnum" where
  "overLastBalance amount lb = jdiv amount (case lb of None \<Rightarrow> Fin 0 | Some b \<Rightarrow> b)"

definition getExplorerLink :: "string \<Rightarrow> string option \<Rightarrow> string" where
  "getExplorerLink txHash net =
     (if net = Some ''ethereum'' then ''https://etherscan.io/tx/'' @ txHash
      else if net = Some ''bsc'' then ''https://bscscan.com/tx/'' @ txHash
      else if net = Some ''polygon'' then ''https://polygonscan.com/tx/'' @ txHash
      else ''#'' @ txHash)"

text \<open>
  The class body defines \<open>handleSellDetected\<close> twice. This is the definition of line 167,
  which the definition of line 308 replaces.
\<close>

definition handleSellDetected_line167 ::
  "check_env \<Rightarrow> wallet \<Rightarrow> jsnum \<Rightarrow> jsnum \<Rightarrow> wallet \<times> event list" where
  "handleSellDetected_line167 env w amountSold newBalance =
     (let usdValue = jmul amountSold (num_or (tokenPrice env) (Fin 0));
          w1 = w\<lparr> alertCount := jadd (num_or (alertCount w) (Fin 0)) (Fin 1),
                   totalVolumeSold := jadd (num_or (totalVolumeSold w) (Fin 0)) usdValue \<rparr>;
          alertData =
            \<lparr> a_id = Some (Fin (real_of_int (nowAlert env) + random env)),
              a_walletAddress = mw_address w, a_walletType = mw_type w,
              a_tokenAddress = mw_tokenAddress w, a_network = mw_network w,
              a_amountSold = amountSold, a_usdValue = usdValue,
              a_previousBalance = lastBalance w, a_newBalance = newBalance,
              a_changePercentage =
                jmul (overLastBalance amountSold (lastBalance w)) (Fin 100),
              a_destination = None, a_transactionHash = None,
              a_timestamp = nowAlert env, a_explorerLink = None,
              a_alertCount = Some (alertCount w1),
              a_totalVolumeSold = Some (totalVolumeSold w1) \<rparr>
      in (w1, [SendAlert alertData, NotifySubscribers alertData]))"

text \<open>The definition of line 308, the one a call of \<open>this.handleSellDetected\<close> runs.\<close>

definition handleSellDetected_line308 ::
  "check_env \<Rightarrow> wallet \<Rightarrow> jsnum \<Rightarrow> jsnum \<Rightarrow> wallet \<times> event list" where
  "handleSellDetected_line308 env w amountSold newBalance =
     (case transactionHistory env of
        Thrown \<Rightarrow> (w, [])
      | Returned recentTxs \<Rightarrow>
          (case find (\<lambda>tx. toLowerCase (h_from tx) = toLowerCase (mw_address w)
                          \<and> nowScan env - h_timestamp tx < 5 * 60 * 1000) recentTxs of
             None \<Rightarrow> (w, [])
           | Some sellTx \<Rightarrow>
               (case usdValueOf env of
                  Thrown \<Rightarrow> (w, [])
                | Returned usdValue \<Rightarrow>
                    (case identifyDEX env of
                       Thrown \<Rightarrow> (w, [])
                     | Returned destination \<Rightarrow>
                         (let alertData =
                                \<lparr> a_id = None,
                                  a_walletAddress = mw_address w, a_walletType = mw_type w,
                                  a_tokenAddress = mw_tokenAddress w,
                                  a_network = mw_network w,
                                  a_amountSold = amountSold, a_usdValue = usdValue,
                                  a_previousBalance = lastBalance w,
                                  a_newBalance = newBalance,
                                  a_changePercentage =
                                    jmul (overLastBalance amountSold (lastBalance w))
                                      (Fin 100),
                                  a_destination = Some destination,
                                  a_transactionHash = Some (h_hash sellTx),
                                  a_timestamp = h_timestamp sellTx,
                                  a_explorerLink =
                                    Some (getExplorerLink (h_hash sellTx) (mw_network w)),
                                  a_alertCount = None, a_totalVolumeSold = None \<rparr>
                          in (w, [SendAlert alertData, StoreAlert alertData,
                                  NotifySubscribers alertData]))))))"

definition handleSellDetected ::
  "check_env \<Rightarrow> wallet \<Rightarrow> jsnum \<Rightarrow> jsnum \<Rightarrow> wallet \<times> event list" where
  "handleSellDetected = handleSellDetected_line308"

text \<open>
  \<open>checkWalletChanges\<close>: the wallet after the check and what the check did. A rejected
  balance fetch is caught by the \<open>catch\<close> of the method and leaves the wallet as it was.
\<close>

definition checkWalletChanges :: "check_env \<Rightarrow> wallet \<Rightarrow> wallet \<times> event list" where
  "checkWalletChanges env w =
     (case balanceFetch env of
        Thrown \<Rightarrow> (w, [])
      | Returned currentBalance \<Rightarrow>
          if \<not> truthy_balance currentBalance then (w, [])
          else
            (let currentBalanceNum = parseFormatted currentBalance
             in case lastBalance w of
                  None \<Rightarrow>
                    (w\<lparr> lastBalance := Some currentBalanceNum,
                        lastChecked := Some (nowDone env) \<rparr>, [])
                | Some lb \<Rightarrow>
                    (let balanceChange = jsub lb currentBalanceNum;
                         changePercentage = jmul (jdiv balanceChange lb) (Fin 100);
                         (w1, evs) =
                           (if jgt balanceChange (Fin 0) \<and> jgt changePercentage (Fin 1)
                            then
                              (let (w2, es) =
                                     handleSellDetected env w balanceChange currentBalanceNum
                               in (w2, SellHandling balanceChange currentBalanceNum # es))
                            else (w, []))
                     in (w1\<lparr> lastBalance := Some currentBalanceNum,
                             lastChecked := Some (nowDone env) \<rparr>, evs))))"


section \<open>Notions used in the statements\<close>

text \<open>The holders of all three buckets, and the buckets holding what they should.\<close>

definition holdersOf :: "buckets \<Rightarrow> holder list" where
  "holdersOf b = map cholder (teamWallets b @ bundleWallets b @ regularWallets b)"

definition wellSorted :: "buckets \<Rightarrow> bool" where
  "wellSorted b \<longleftrightarrow>
     (\<forall>e \<in> set (teamWallets b). w_type e = Team \<and> address (cholder e) \<noteq> None)
   \<and> (\<forall>e \<in> set (bundleWallets b). w_type e = Bundle \<and> address (cholder e) \<noteq> None)
   \<and> (\<forall>e \<in> set (regularWallets b).
         if address (cholder e) = None
         then w_type e = Unknown \<and> w_reason e = Literal ''Classification failed''
         else w_type e = Regular)"

text \<open>The percentage of a holder is its balance over the human-readable total supply.\<close>

definition shareOfSupply :: "jsnum \<Rightarrow> holder \<Rightarrow> bool" where
  "shareOfSupply totalSupplyFmt h \<longleftrightarrow>
     percentage h =
       (if jgt totalSupplyFmt (Fin 0)
        then jmul (jdiv (balance h) totalSupplyFmt) (Fin 100) else Fin 0)"

text \<open>The events of a check contain a call of the sell handling.\<close>

fun isSellHandling :: "event \<Rightarrow> bool" where
  "isSellHandling (SellHandling a b) = True"
| "isSellHandling e = False"

definition sellHandlingInvoked :: "event list \<Rightarrow> bool" where
  "sellHandlingInvoked evs = list_ex isSellHandling evs"

text \<open>The wallets a step of a cycle checks.\<close>

fun batchWallets :: "step \<Rightarrow> wallet list" where
  "batchWallets (Batch ws) = ws"
| "batchWallets (Pause ms) = []"

text \<open>The monitor has been initialized with a token, a blockchain and at least one wallet.\<close>

definition ready :: "monitor \<Rightarrow> bool" where
  "ready m \<longleftrightarrow>
     truthy_str (tokenAddress m) \<and> truthy_str (blockchain m) \<and> monitoredWallets m \<noteq> []"

text \<open>
  The handle the monitor holds is the handle of the only active timer, and it holds one
  exactly while it is monitoring.
\<close>

definition timerMatchesState :: "monitor \<Rightarrow> bool" where
  "timerMatchesState m \<longleftrightarrow>
     0 < nextHandle m
   \<and> (case monitorInterval m of
         None \<Rightarrow> \<not> isMonitoring m \<and> timers m = []
       | Some h \<Rightarrow> 0 < h \<and> h < nextHandle m \<and> isMonitoring m \<and> map fst (timers m) = [h])"

text \<open>\<open>n\<close> successive calls of \<open>startMonitoring\<close>: their results and the final state.\<close>

fun startMonitoringTimes :: "nat \<Rightarrow> monitor \<Rightarrow> (error + bool) list \<times> monitor" where
  "startMonitoringTimes 0 m = ([], m)"
| "startMonitoringTimes (Suc n) m =
     (let (r, m1) = startMonitoring m;
          (rs, m2) = startMonitoringTimes n m1
      in (r # rs, m2))"

section \<open>Sample inputs\<close>

definition holderAt :: "string option \<Rightarrow> real \<Rightarrow> holder" where
  "holderAt a p =
     \<lparr> address = a, balance = Fin 1, balanceRaw = Fin 100, percentage = Fin p \<rparr>"

definition entryAt :: "real \<Rightarrow> classified" where
  "entryAt p =
     \<lparr> cholder = holderAt (Some ''0xA'') p, w_type = Team,
       w_reason = HoldsPercent (Fin p), w_riskLevel = Some Medium \<rparr>"

text \<open>An explorer that reports one transaction from the deployer \<open>0xDE\<close> to every wallet.\<close>

definition fundedEnv :: classifier_env where
  "fundedEnv =
     \<lparr> txlistAsc = (\<lambda>a c. Returned \<lparr> status = ''1'',
          result = [\<lparr> tx_hash = ''0x1'', tx_from = ''0xDE'', tx_to = a,
                      tx_timeStamp = 1 \<rparr>] \<rparr>),
       txlistDesc = (\<lambda>a c. Thrown), dateNow = 1000 \<rparr>"

definition sampleDeployer :: "deployer option" where
  "sampleDeployer =
     Some \<lparr> d_address = Some ''0xde'', d_txHash = ''0x0'', d_blockNumber = ''1'' \<rparr>"

text \<open>
  A provider answer with four owners, the fourth without \<open>owner_address\<close>, for a token
  with 2 decimals and a raw total supply of 10000.
\<close>

definition sampleMetadata :: metadata where
  "sampleMetadata = \<lparr> decimals = Truthy (Some 2), totalSupply = Truthy (Fin 10000) \<rparr>"

definition sampleOwners :: "owner list" where
  "sampleOwners =
     [\<lparr> owner_address = Some ''0xA'', owner_balance = Fin 2500 \<rparr>,
      \<lparr> owner_address = Some ''0xB'', owner_balance = Fin 300 \<rparr>,
      \<lparr> owner_address = Some ''0xC'', owner_balance = Fin 200 \<rparr>,
      \<lparr> owner_address = None, owner_balance = Fin 5 \<rparr>]"

definition sampleHoldersEnv :: holders_env where
  "sampleHoldersEnv =
     \<lparr> moralisOwners = Returned (Some sampleOwners),
       metadataFirst = Returned sampleMetadata,
       metadataFallback = Thrown, tokentx = Thrown \<rparr>"

definition sampleHolders :: "holder list" where
  "sampleHolders =
     [\<lparr> address = Some ''0xA'', balance = Fin 25, balanceRaw = Fin 2500,
        percentage = Fin 25 \<rparr>,
      \<lparr> address = Some ''0xB'', balance = Fin 3, balanceRaw = Fin 300,
        percentage = Fin 3 \<rparr>,
      \<lparr> address = Some ''0xC'', balance = Fin 2, balanceRaw = Fin 200,
        percentage = Fin 2 \<rparr>,
      \<lparr> address = None, balance = Fin (1 / 20), balanceRaw = Fin 5,
        percentage = Fin (1 / 20) \<rparr>]"

text \<open>A monitored wallet with a balance of 1000 on record, and one never checked.\<close>

definition sampleWallet :: wallet where
  "sampleWallet =
     \<lparr> mw_address = ''0xA'', mw_type = ''team'', mw_tokenAddress = Some ''0xT'',
       mw_network = Some ''ethereum'', lastBalance = Some (Fin 1000),
       lastChecked = Some 5, alertCount = Fin 0, totalVolumeSold = Fin 0 \<rparr>"


text \<open>
  Collaborators that all answer: the balance is as given, the history holds a transfer
  sent by the wallet 1000 ms before the scan, the sale is valued at 100 USD, and the
  token price is 2 USD.
\<close>

definition sampleCheck :: "balance_value \<Rightarrow> check_env" where
  "sampleCheck v =
     \<lparr> balanceFetch = Returned v,
       transactionHistory =
         Returned [\<lparr> h_hash = ''0xh'', h_from = ''0xa'', h_to = ''0xdex'',
                     h_timestamp = 1000 \<rparr>],
       usdValueOf = Returned (Fin 100),
       identifyDEX = Returned ''Uniswap'',
       tokenPrice = Fin 2, nowScan = 2000, nowAlert = 2001, nowDone = 2002,
       random = 1 / 2 \<rparr>"

definition walletArg :: "string \<Rightarrow> wallet_arg option" where
  "walletArg a = Some \<lparr> arg_address = Some a, arg_type = ''team'' \<rparr>"

definition monitored :: "string \<Rightarrow> wallet" where
  "monitored a =
     \<lparr> mw_address = a, mw_type = ''team'', mw_tokenAddress = Some ''0xT'',
       mw_network = Some ''ethereum'', lastBalance = None, lastChecked = None,
       alertCount = Fin 0, totalVolumeSold = Fin 0 \<rparr>"

text \<open>A monitor initialized with four wallets, and the same monitor once started.\<close>

definition fourWallets :: monitor where
  "fourWallets =
     snd (initialize (Some ''0xT'') (Some ''ethereum'')
            (Some [walletArg ''0xa'', walletArg ''0xb'', walletArg ''0xc'', walletArg ''0xd''])
            constructor)"

definition fourWalletsStarted :: monitor where
  "fourWalletsStarted = snd (startMonitoring fourWallets)"

text \<open>The started monitor after it has been initialized again, with an empty wallet list.\<close>

definition reinitializedEmpty :: monitor where
  "reinitializedEmpty =
     snd (initialize (Some ''0xT'') (Some ''ethereum'') (Some []) fourWalletsStarted)"

section \<open>Risk assessment\<close>

text \<open>
  Claim C8. The risk level of \<open>assessRisk\<close> is a function of the two summed
  percentages alone: high when the team sum is above 20 or the bundle sum above 15,
  medium when one of the sums is above 10 and neither high condition holds, low
  otherwise. The whole result is the same for bucket lists with the same two sums.
  Sums of 25 and 0 give high, 12 and 0 give medium, 5 and 5 give low.
\<close>

theorem assessRisk_thresholds:
  "riskLevel (assessRisk t b) =
     (if jgt (supplyOf t) (Fin 20) \<or> jgt (supplyOf b) (Fin 15) then High
      else if jgt (supplyOf t) (Fin 10) \<or> jgt (supplyOf b) (Fin 10) then Medium
      else Low)
   \<and> (supplyOf t = supplyOf t' \<and> supplyOf b = supplyOf b'
        \<longrightarrow> assessRisk t b = assessRisk t' b')
   \<and> (supplyOf t = Fin 25 \<and> supplyOf b = Fin 0 \<longrightarrow> riskLevel (assessRisk t b) = High)
   \<and> (supplyOf t = Fin 12 \<and> supplyOf b = Fin 0 \<longrightarrow> riskLevel (assessRisk t b) = Medium)
   \<and> (supplyOf t = Fin 5 \<and> supplyOf b = Fin 5 \<longrightarrow> riskLevel (assessRisk t b) = Low)"
  by (simp add: assessRisk_def Let_def)

lemma supplyOf_samples:
  "supplyOf [] = Fin 0" "supplyOf [entryAt p] = Fin p"
  "supplyOf [entryAt p, entryAt q] = Fin (p + q)"
  by (simp_all add: supplyOf_def entryAt_def holderAt_def)

theorem assessRisk_thresholds_witness:
  "supplyOf [entryAt 25] = Fin 25 \<and> supplyOf [] = Fin 0
   \<and> riskLevel (assessRisk [entryAt 25] []) = High
   \<and> supplyOf [entryAt 12] = Fin 12
   \<and> riskLevel (assessRisk [entryAt 12] []) = Medium
   \<and> supplyOf [entryAt 5] = Fin 5
   \<and> riskLevel (assessRisk [entryAt 5] [entryAt 5]) = Low
   \<and> supplyOf [entryAt 20, entryAt 5] = supplyOf [entryAt 25]
   \<and> assessRisk [entryAt 20, entryAt 5] [] = assessRisk [entryAt 25] []"
  using assessRisk_thresholds [of "[entryAt 25]" "[]" "[entryAt 25]" "[]"]
    assessRisk_thresholds [of "[entryAt 12]" "[]" "[entryAt 12]" "[]"]
    assessRisk_thresholds [of "[entryAt 5]" "[entryAt 5]" "[entryAt 5]" "[entryAt 5]"]
    assessRisk_thresholds [of "[entryAt 20, entryAt 5]" "[]" "[entryAt 25]" "[]"]
  by (simp add: supplyOf_samples)

section \<open>Classification of one holder\<close>

text \<open>
  Claim C9. For a holder with an address whose percentage is above 0.1, \<open>classifyWallet\<close>
  returns type team, with risk level high when the percentage is above 10 and medium
  otherwise, and makes no network call: neither the deployer-funding check nor the
  bundle-pattern check runs, whatever they would answer.
\<close>

theorem classifyWallet_concentration_rule:
  "address h = Some a \<Longrightarrow> jgt (percentage h) (Fin (1 / 10)) \<Longrightarrow>
     classifyWallet env h dep chain =
       (Inr \<lparr> ctype = Team, creason = HoldsPercent (percentage h),
              criskLevel = (if jgt (percentage h) (Fin 10) then High else Medium) \<rparr>, [])"
  by (simp add: classifyWallet_def)

text \<open>A holder at 5 percent that the deployer funded is classified team.\<close>

theorem classifyWallet_concentration_rule_witness:
  "address (holderAt (Some ''0xA'') 5) = Some ''0xA''
   \<and> jgt (percentage (holderAt (Some ''0xA'') 5)) (Fin (1 / 10))
   \<and> checkDeployerFunding fundedEnv ''0xA'' ''0xde'' ''ethereum''
   \<and> classifyWallet fundedEnv (holderAt (Some ''0xA'') 5) sampleDeployer ''ethereum'' =
       (Inr \<lparr> ctype = Team, creason = HoldsPercent (Fin 5), criskLevel = Medium \<rparr>, [])"
  using classifyWallet_concentration_rule
    [of "holderAt (Some ''0xA'') 5" "''0xA''" fundedEnv sampleDeployer "''ethereum''"]
  by (simp add: holderAt_def checkDeployerFunding_def fundedEnv_def toLowerCase_def
      lower_char_def)

text \<open>Below the threshold the same holder is a bundle wallet, after the funding check.\<close>

lemma classifyWallet_funded_below_threshold:
  "classifyWallet fundedEnv (holderAt (Some ''0xA'') (1 / 20)) sampleDeployer ''ethereum'' =
     (Inr \<lparr> ctype = Bundle, creason = Literal ''Funded by contract deployer'',
            criskLevel = High \<rparr>, [FundingCheck ''0xA'' ''0xde''])"
  by (simp add: classifyWallet_def holderAt_def checkDeployerFunding_def fundedEnv_def
      toLowerCase_def lower_char_def sampleDeployer_def deployerAddress_def)

section \<open>Classification of a list of holders\<close>

lemma classifyWallet_error:
  "fst (classifyWallet env h dep chain) = Inl e \<Longrightarrow> address h = None"
  by (auto simp: classifyWallet_def Let_def split: option.splits if_splits)

lemma classifyWallet_raises_iff:
  "fst (classifyWallet env h dep chain) = Inl TypeError \<longleftrightarrow> address h = None"
  by (auto simp: classifyWallet_def Let_def split: option.splits)

lemma classifyWallet_type:
  "fst (classifyWallet env h dep chain) = Inr c \<Longrightarrow>
     address h \<noteq> None \<and> ctype c \<noteq> Unknown"
  by (auto simp: classifyWallet_def Let_def split: option.splits if_splits)

text \<open>
  The log before the loop raises as soon as one of the first five holders has no
  address, and nothing catches it.
\<close>

lemma classifyWallets_log_raises:
  "list_ex (\<lambda>h. address h = None) (take 5 hs) \<Longrightarrow>
     classifyWallets env (Some hs) dep chain = Inl TypeError"
  by (cases hs) (simp_all add: classifyWallets_def)

text \<open>
  \<open>getTopHolders\<close> hands such a list to the classifier: its own log only looks at the
  first three holders.
\<close>

lemma getTopHolders_sample: "getTopHolders sampleHoldersEnv = sampleHolders"
  by (simp add: getTopHolders_def sampleHoldersEnv_def sampleOwners_def sampleHolders_def
      sampleMetadata_def holderRecord_def totalSupplyFormatted_def parsedDecimals_def
      parsedTotalSupply_def pow10_def Let_def)

text \<open>
  Claim C7 says that a holder whose classification raises is recorded as unknown and
  never makes \<open>classifyWallets\<close> throw. On the holders of the sample answer the
  classification of the fourth holder raises, and \<open>classifyWallets\<close> throws.
\<close>

theorem classifyWallets_aborts_on_sample:
  "fst (classifyWallet env (sampleHolders ! 3) dep chain) = Inl TypeError
   \<and> classifyWallets env (Some sampleHolders) dep chain = Inl TypeError"
  by (simp add: classifyWallets_def classifyWallet_def sampleHolders_def)

text \<open>
  When the first five holders all have an address, the loop isolates every failure:
  \<open>classifyWallets\<close> returns, every holder is in exactly one bucket, and the holders
  whose classification raised are in the regular bucket as unknown.
\<close>

lemma classify_step_mset:
  "mset (holdersOf (classify_step env dep chain b h)) = add_mset h (mset (holdersOf b))"
  by (auto simp: classify_step_def holdersOf_def merge_entry_def
      split: sum.splits wallet_type.splits)

lemma classify_step_sorted:
  "wellSorted b \<Longrightarrow> wellSorted (classify_step env dep chain b h)"
proof (cases "fst (classifyWallet env h dep chain)")
  case (Inl e)
  assume "wellSorted b"
  with Inl classifyWallet_error [OF Inl] show ?thesis
    by (auto simp: classify_step_def wellSorted_def)
next
  case (Inr c)
  assume "wellSorted b"
  with Inr classifyWallet_type [OF Inr] show ?thesis
    by (cases "ctype c") (auto simp: classify_step_def wellSorted_def merge_entry_def)
qed

lemma foldl_classify_mset:
  "mset (holdersOf (foldl (classify_step env dep chain) b hs)) = mset hs + mset (holdersOf b)"
  by (induction hs arbitrary: b) (simp_all add: classify_step_mset)

lemma foldl_classify_sorted:
  "wellSorted b \<Longrightarrow> wellSorted (foldl (classify_step env dep chain) b hs)"
  by (induction hs arbitrary: b) (simp_all add: classify_step_sorted)

lemma classifyWallets_isolates_later_failures:
  assumes "\<not> list_ex (\<lambda>h. address h = None) (take 5 hs)" and "hs \<noteq> []"
  shows "\<exists>b. classifyWallets env (Some hs) dep chain =
               Inr \<lparr> r_teamWallets = teamWallets b, r_bundleWallets = bundleWallets b,
                     r_regularWallets = regularWallets b,
                     r_riskAssessment = assessRisk (teamWallets b) (bundleWallets b) \<rparr>
           \<and> mset (holdersOf b) = mset hs \<and> wellSorted b"
proof -
  let ?b0 = "\<lparr> teamWallets = [], bundleWallets = [], regularWallets = [] \<rparr>"
  let ?b = "foldl (classify_step env dep chain) ?b0 hs"
  have s: "wellSorted ?b"
    by (rule foldl_classify_sorted) (simp add: wellSorted_def)
  have m: "mset (holdersOf ?b) = mset hs"
    by (simp add: foldl_classify_mset) (simp add: holdersOf_def)
  have "classifyWallets env (Some hs) dep chain =
               Inr \<lparr> r_teamWallets = teamWallets ?b, r_bundleWallets = bundleWallets ?b,
                     r_regularWallets = regularWallets ?b,
                     r_riskAssessment = assessRisk (teamWallets ?b) (bundleWallets ?b) \<rparr>"
    using assms by (simp add: classifyWallets_def Let_def)
  with s m show ?thesis by blast
qed

section \<open>Percentage of supply\<close>

lemma set_insertHolder: "set (insertHolder x ys) = insert x (set ys)"
  by (induction ys) auto

lemma set_sortByBalance: "set (sortByBalance hs) = set hs"
  by (induction hs) (simp_all add: sortByBalance_def set_insertHolder)

lemma holderRecord_share: "shareOfSupply tsf (holderRecord d tsf a raw)"
  by (simp add: shareOfSupply_def holderRecord_def Let_def)

lemma fallback_share:
  assumes "h \<in> set (getHoldersFromTransactions env)"
  shows "\<exists>md. metadataFallback env = Returned md \<and> shareOfSupply (totalSupplyFormatted md) h"
proof (cases "metadataFallback env")
  case Thrown
  with assms show ?thesis by (simp add: getHoldersFromTransactions_def)
next
  case (Returned md)
  from assms Returned have "h \<in> set (map (\<lambda>(addr, balRaw).
          holderRecord (parsedDecimals md) (totalSupplyFormatted md) (Some addr) balRaw)
        (foldl addTransfer [] (t_result (case tokentx env of Returned r \<Rightarrow> r))))"
    by (auto simp: getHoldersFromTransactions_def set_sortByBalance
        split: outcome.splits if_splits dest!: in_set_takeD)
  then have "shareOfSupply (totalSupplyFormatted md) h"
    by (auto simp: holderRecord_share)
  with Returned show ?thesis by simp
qed

lemma getTopHolders_cases:
  "getTopHolders env = getHoldersFromTransactions env
   \<or> (\<exists>md. metadataFirst env = Returned md
         \<and> (\<forall>h \<in> set (getTopHolders env). shareOfSupply (totalSupplyFormatted md) h))"
  by (auto simp: getTopHolders_def Let_def holderRecord_share
      split: outcome.splits option.splits)

lemma moralis_share:
  assumes "h \<in> set (getTopHolders env)"
  shows "\<exists>md. (metadataFirst env = Returned md \<or> metadataFallback env = Returned md)
            \<and> shareOfSupply (totalSupplyFormatted md) h"
  using getTopHolders_cases [of env]
proof
  assume "getTopHolders env = getHoldersFromTransactions env"
  with assms fallback_share [of h env] show ?thesis by auto
next
  assume "\<exists>md. metadataFirst env = Returned md
         \<and> (\<forall>h \<in> set (getTopHolders env). shareOfSupply (totalSupplyFormatted md) h)"
  with assms show ?thesis by blast
qed

text \<open>
  Claim C10. Every holder record that \<open>getTopHolders\<close> or the transaction-history
  fallback produces was built from a metadata answer of that call, and its percentage
  is its balance divided by the human-readable total supply of that answer
  (\<open>totalSupply / 10^decimals\<close>), times 100, when that supply is positive, and 0 when
  it is zero.
\<close>

theorem holder_percentage_of_supply:
  assumes "h \<in> set (getTopHolders env) \<or> h \<in> set (getHoldersFromTransactions env)"
  shows "\<exists>md. (metadataFirst env = Returned md \<or> metadataFallback env = Returned md)
           \<and> shareOfSupply (totalSupplyFormatted md) h
           \<and> totalSupplyFormatted md = jdiv (parsedTotalSupply md) (pow10 (parsedDecimals md))
           \<and> (\<forall>s. totalSupplyFormatted md = Fin s \<longrightarrow>
                 (0 < s \<longrightarrow> percentage h = jmul (jdiv (balance h) (Fin s)) (Fin 100))
               \<and> (0 < s \<longrightarrow> (\<forall>b. balance h = Fin b \<longrightarrow> percentage h = Fin (b / s * 100)))
               \<and> (s = 0 \<longrightarrow> percentage h = Fin 0))"
proof -
  from assms obtain md where
    md: "metadataFirst env = Returned md \<or> metadataFallback env = Returned md"
    and sh: "shareOfSupply (totalSupplyFormatted md) h"
    using moralis_share [of h env] fallback_share [of h env] by blast
  have "\<forall>s. totalSupplyFormatted md = Fin s \<longrightarrow>
                 (0 < s \<longrightarrow> percentage h = jmul (jdiv (balance h) (Fin s)) (Fin 100))
               \<and> (0 < s \<longrightarrow> (\<forall>b. balance h = Fin b \<longrightarrow> percentage h = Fin (b / s * 100)))
               \<and> (s = 0 \<longrightarrow> percentage h = Fin 0)"
    using sh by (auto simp: shareOfSupply_def)
  with md sh show ?thesis
    by (auto simp: totalSupplyFormatted_def)
qed

lemma getTopHolders_zero_supply:
  "getTopHolders (sampleHoldersEnv\<lparr> metadataFirst :=
       Returned (sampleMetadata\<lparr> totalSupply := Falsy \<rparr>) \<rparr>) =
     map (\<lambda>h. h\<lparr> percentage := Fin 0 \<rparr>) sampleHolders"
  by (simp add: getTopHolders_def sampleHoldersEnv_def sampleOwners_def sampleHolders_def
      sampleMetadata_def holderRecord_def totalSupplyFormatted_def parsedDecimals_def
      parsedTotalSupply_def pow10_def Let_def)

theorem holder_percentage_of_supply_witness:
  "hd sampleHolders \<in> set (getTopHolders sampleHoldersEnv)
   \<and> metadataFirst sampleHoldersEnv = Returned sampleMetadata
   \<and> totalSupplyFormatted sampleMetadata = Fin 100
   \<and> balance (hd sampleHolders) = Fin 25
   \<and> percentage (hd sampleHolders) = Fin (25 / 100 * 100)
   \<and> (hd sampleHolders)\<lparr> percentage := Fin 0 \<rparr>
       \<in> set (getTopHolders (sampleHoldersEnv\<lparr> metadataFirst :=
                 Returned (sampleMetadata\<lparr> totalSupply := Falsy \<rparr>) \<rparr>))
   \<and> totalSupplyFormatted (sampleMetadata\<lparr> totalSupply := Falsy \<rparr>) = Fin 0"
  using holder_percentage_of_supply [of "hd sampleHolders" sampleHoldersEnv]
    holder_percentage_of_supply [of "(hd sampleHolders)\<lparr> percentage := Fin 0 \<rparr>"
      "sampleHoldersEnv\<lparr> metadataFirst :=
         Returned (sampleMetadata\<lparr> totalSupply := Falsy \<rparr>) \<rparr>"]
  unfolding getTopHolders_sample getTopHolders_zero_supply
  by (simp add: sampleHolders_def sampleHoldersEnv_def sampleMetadata_def
      totalSupplyFormatted_def parsedDecimals_def parsedTotalSupply_def pow10_def)


section \<open>Checking one wallet\<close>

text \<open>
  A first check that obtains an object with a \<open>formatted\<close> balance sets \<open>lastBalance\<close>
  to that balance and \<open>lastChecked\<close> to the current time, changes nothing else, does
  not call the sell handling and emits no alert.
\<close>

lemma object_balance_seeds_baseline:
  "lastBalance w = None \<Longrightarrow> balanceFetch env = Returned (WithFormatted n) \<Longrightarrow>
     checkWalletChanges env w =
       (w\<lparr> lastBalance := Some n, lastChecked := Some (nowDone env) \<rparr>, [])"
  by (simp add: checkWalletChanges_def)

text \<open>
  The check reads the property \<open>formatted\<close> of what the fetch returns. A fetch that
  returns a bare non-zero number, as \<open>getTokenBalance\<close> of the analytics service does,
  seeds the baseline with NaN. A fetch that rejects leaves the wallet as it was.
\<close>

lemma bare_number_seeds_NaN:
  "lastBalance w = None \<Longrightarrow> balanceFetch env = Returned (Number n) \<Longrightarrow> truthy_num n \<Longrightarrow>
     checkWalletChanges env w =
       (w\<lparr> lastBalance := Some NaN, lastChecked := Some (nowDone env) \<rparr>, [])"
  by (simp add: checkWalletChanges_def)

lemma rejected_fetch_changes_nothing:
  "balanceFetch env = Thrown \<Longrightarrow> checkWalletChanges env w = (w, [])"
  by (simp add: checkWalletChanges_def)


lemma getTokenBalance_is_number: "\<exists>n. getTokenBalance r = Number n"
  by (auto simp: getTokenBalance_def split: outcome.splits option.splits list.splits)

lemma jadd_NaN_right: "jadd a NaN = NaN"
  by (cases a) simp_all

text \<open>
  With such a fetch the current balance is always NaN, no comparison with it holds, and
  the check never calls the sell handling.
\<close>

lemma bare_number_never_sells:
  "balanceFetch env = Returned (Number n) \<Longrightarrow> snd (checkWalletChanges env w) = []"
  by (simp add: checkWalletChanges_def jsub_def jadd_NaN_right Let_def split: option.splits)

text \<open>
  Claim C4. When the balance fetch returns the number 0, the check returns at once: the
  wallet is unchanged (\<open>lastBalance\<close>, \<open>lastChecked\<close>, \<open>alertCount\<close> and
  \<open>totalVolumeSold\<close> included) and nothing is emitted. A balance that really dropped to
  zero is therefore not detected as a sale.
\<close>

theorem zero_balance_skips_check:
  "balanceFetch env = Returned (Number (Fin 0)) \<Longrightarrow> checkWalletChanges env w = (w, [])"
  by (simp add: checkWalletChanges_def)

text \<open>The provider reports a balance of 0 for a wallet that held 1000.\<close>

theorem zero_balance_skips_check_witness:
  "getTokenBalance (Returned (Some [Fin 0])) = Number (Fin 0)
   \<and> balanceFetch (sampleCheck (getTokenBalance (Returned (Some [Fin 0]))))
       = Returned (Number (Fin 0))
   \<and> lastBalance sampleWallet = Some (Fin 1000)
   \<and> checkWalletChanges (sampleCheck (getTokenBalance (Returned (Some [Fin 0]))))
        sampleWallet = (sampleWallet, [])"
  using zero_balance_skips_check
    [of "sampleCheck (getTokenBalance (Returned (Some [Fin 0])))" sampleWallet]
  by (simp add: getTokenBalance_def sampleCheck_def sampleWallet_def)

lemma getTokenBalance_zero_cases:
  "getTokenBalance Thrown = Number (Fin 0)"
  "getTokenBalance (Returned None) = Number (Fin 0)"
  "getTokenBalance (Returned (Some [])) = Number (Fin 0)"
  "getTokenBalance (Returned (Some (Fin 0 # bs))) = Number (Fin 0)"
  by (simp_all add: getTokenBalance_def)

section \<open>The sell threshold\<close>







section \<open>Sell handling and the wallet statistics\<close>

text \<open>
  The sell handling that runs (line 308) returns the wallet as it got it, so a check
  never changes \<open>alertCount\<close> or \<open>totalVolumeSold\<close>. The replaced definition (line 167)
  adds one to \<open>alertCount\<close> and the USD value to \<open>totalVolumeSold\<close>.
\<close>

lemma handleSellDetected_keeps_wallet: "fst (handleSellDetected env w a b) = w"
  by (simp add: handleSellDetected_def handleSellDetected_line308_def Let_def
      split: outcome.splits option.splits)

lemma handleSellDetected_result:
  "handleSellDetected env w a b = (w', es) \<Longrightarrow> w' = w"
  using handleSellDetected_keeps_wallet [of env w a b] by simp

lemma checkWalletChanges_keeps_counters:
  "alertCount (fst (checkWalletChanges env w)) = alertCount w
   \<and> totalVolumeSold (fst (checkWalletChanges env w)) = totalVolumeSold w"
  by (auto simp: checkWalletChanges_def Let_def dest: handleSellDetected_result
      split: outcome.splits option.splits prod.splits)

lemma handleSellDetected_line167_counts:
  "alertCount (fst (handleSellDetected_line167 env w a b)) =
     jadd (num_or (alertCount w) (Fin 0)) (Fin 1)
   \<and> totalVolumeSold (fst (handleSellDetected_line167 env w a b)) =
     jadd (num_or (totalVolumeSold w) (Fin 0)) (jmul a (num_or (tokenPrice env) (Fin 0)))"
  by (simp add: handleSellDetected_line167_def Let_def)

text \<open>
  Claim C2 says that the sell handling that runs adds one to \<open>alertCount\<close> and the USD
  value to \<open>totalVolumeSold\<close>. A wallet with 1000 on record is seen with 950: the sell
  handling is called with a sale of 50 and the alert, valued at 100 USD, goes out, but
  both statistics are still 0 after the check. The replaced definition would have
  made them 1 and 100.
\<close>

theorem sell_detected_statistics_unchanged:
  "sellHandlingInvoked (snd (checkWalletChanges (sampleCheck (WithFormatted (Fin 950)))
      sampleWallet))
   \<and> map a_usdValue
       (concat (map (\<lambda>e. case e of NotifySubscribers a \<Rightarrow> [a] | _ \<Rightarrow> [])
          (snd (checkWalletChanges (sampleCheck (WithFormatted (Fin 950))) sampleWallet))))
      = [Fin 100]
   \<and> alertCount (fst (checkWalletChanges (sampleCheck (WithFormatted (Fin 950)))
        sampleWallet)) = Fin 0
   \<and> totalVolumeSold (fst (checkWalletChanges (sampleCheck (WithFormatted (Fin 950)))
        sampleWallet)) = Fin 0
   \<and> alertCount (fst (handleSellDetected_line167 (sampleCheck (WithFormatted (Fin 950)))
        sampleWallet (Fin 50) (Fin 950))) = Fin 1
   \<and> totalVolumeSold (fst (handleSellDetected_line167
        (sampleCheck (WithFormatted (Fin 950))) sampleWallet (Fin 50) (Fin 950))) = Fin 100"
  by (simp add: checkWalletChanges_def handleSellDetected_def handleSellDetected_line308_def
      handleSellDetected_line167_def sampleCheck_def sampleWallet_def
      sellHandlingInvoked_def jsub_def num_or_def toLowerCase_def lower_char_def Let_def)


section \<open>The poll cycle\<close>

text \<open>
  The method \<open>checkAllWalletsStaggered\<close> checks every wallet once, in batches of at
  most three, and every pause it makes lasts two seconds.
\<close>

lemma staggeredFrom_covers:
  "concat (map batchWallets (staggeredFrom i ws)) = drop i ws"
proof (induction i ws rule: staggeredFrom.induct)
  case (1 i wallets)
  show ?case
  proof (cases "i < length wallets")
    case True
    have "take 3 (drop i wallets) @ drop 3 (drop i wallets) = drop i wallets"
      by (rule append_take_drop_id)
    then have "take 3 (drop i wallets) @ drop (i + 3) wallets = drop i wallets"
      by (simp add: add.commute)
    with True "1.IH" show ?thesis
      by (subst staggeredFrom.simps) (simp add: slice_def)
  next
    case False
    then show ?thesis by (subst staggeredFrom.simps) simp
  qed
qed

lemma staggeredFrom_steps:
  "s \<in> set (staggeredFrom i ws) \<Longrightarrow>
     (case s of Batch b \<Rightarrow> 0 < length b \<and> length b \<le> 3 | Pause d \<Rightarrow> d = 2000)"
proof (induction i ws rule: staggeredFrom.induct)
  case (1 i wallets)
  show ?case
  proof (cases "i < length wallets")
    case True
    from "1.prems" have "s = Batch (slice i (i + 3) wallets) \<or> s = Pause 2000
        \<or> s \<in> set (staggeredFrom (i + 3) wallets)"
      by (subst (asm) staggeredFrom.simps) (auto simp: True split: if_splits)
    with True "1.IH" show ?thesis by (auto simp: slice_def)
  next
    case False
    with "1.prems" show ?thesis by (subst (asm) staggeredFrom.simps) simp
  qed
qed

text \<open>
  \<open>startMonitoring\<close> creates at most one timer, and the timer it creates is the one of
  the \<open>startPolling\<close> of line 255: every 30 seconds it runs \<open>checkAllWallets\<close>, which
  checks all wallets in a single batch and never pauses.
\<close>

lemma startMonitoring_timers:
  "timers (snd (startMonitoring m)) = timers m
   \<or> timers (snd (startMonitoring m)) = timers m @ [(nextHandle m, startPolling_line255)]"
  by (simp add: startMonitoring_def startPolling_def setInterval_def)

lemma runTimer_line255:
  "runTimer startPolling_line255 m = [Batch (map snd (monitoredWallets m))]"
  by (simp add: runTimer_def startPolling_line255_def checkAllWallets_def)

lemma fourWallets_monitored:
  "monitoredWallets fourWallets =
     [(''0xa'', monitored ''0xa''), (''0xb'', monitored ''0xb''),
      (''0xc'', monitored ''0xc''), (''0xd'', monitored ''0xd'')]"
  by (simp add: fourWallets_def initialize_def addWallet_def walletArg_def monitored_def
      toLowerCase_def lower_char_def Let_def)

lemma fourWallets_state:
  "tokenAddress fourWallets = Some ''0xT''" "blockchain fourWallets = Some ''ethereum''"
  "isMonitoring fourWallets = False" "timers fourWallets = []"
  "nextHandle fourWallets = 1" "monitorInterval fourWallets = None"
  by (simp_all add: fourWallets_def initialize_def constructor_def Let_def)

lemma fourWallets_ready: "ready fourWallets"
  by (simp add: ready_def fourWallets_state fourWallets_monitored)

lemma fourWalletsStarted_eq:
  "fourWalletsStarted =
     fourWallets\<lparr> isMonitoring := True, monitorInterval := Some 1,
       timers := [(1, startPolling_line255)], nextHandle := 2 \<rparr>"
  by (simp add: fourWalletsStarted_def startMonitoring_def startPolling_def setInterval_def
      fourWallets_state fourWallets_monitored)

text \<open>
  Whatever calls of \<open>initialize\<close>, \<open>startMonitoring\<close> and \<open>stopMonitoring\<close> are made on a
  new monitor, every timer that is active is the one of line 255, so every poll cycle is
  a single batch of all monitored wallets.
\<close>

lemma timers_perform:
  "set (timers (perform m c)) \<subseteq> insert (nextHandle m, startPolling_line255) (set (timers m))"
proof (cases c)
  case (CallInitialize t ch ws)
  then show ?thesis
    by (cases ws) (auto simp: initialize_def Let_def)
next
  case CallStartMonitoring
  then show ?thesis
    by (auto simp: startMonitoring_def startPolling_def setInterval_def)
next
  case CallStopMonitoring
  show ?thesis
  proof (cases "monitorInterval m")
    case None
    then show ?thesis by (auto simp: CallStopMonitoring stopMonitoring_def)
  next
    case (Some h)
    then show ?thesis
      by (auto simp: CallStopMonitoring stopMonitoring_def clearInterval_def)
  qed
qed

lemma foldl_timers_line255:
  "snd ` set (timers m) \<subseteq> {startPolling_line255} \<Longrightarrow>
     snd ` set (timers (foldl perform m calls)) \<subseteq> {startPolling_line255}"
proof (induction calls arbitrary: m)
  case Nil
  then show ?case by simp
next
  case (Cons c calls)
  have "snd ` set (timers (perform m c)) \<subseteq> {startPolling_line255}"
    using Cons.prems timers_perform [of m c] by fastforce
  then show ?case using Cons.IH by simp
qed

lemma every_poll_cycle_is_one_batch:
  assumes "c \<in> set (pollCycles (performAll calls))"
  shows "c = [Batch (map snd (monitoredWallets (performAll calls)))]"
proof -
  have "snd ` set (timers (performAll calls)) \<subseteq> {startPolling_line255}"
    unfolding performAll_def
    by (rule foldl_timers_line255) (simp add: constructor_def)
  moreover from assms obtain p where "p \<in> set (timers (performAll calls))"
    and "c = runTimer (snd p) (performAll calls)"
    by (auto simp: pollCycles_def)
  ultimately have "c = runTimer startPolling_line255 (performAll calls)" by auto
  then show ?thesis
    by (simp add: runTimer_def startPolling_line255_def checkAllWallets_def)
qed

text \<open>
  Claim C1 says that every poll cycle runs in batches of three with a pause of two
  seconds between batches. The monitor with four wallets, once started, has one timer;
  its cycle is a single batch of all four wallets without a pause. The replaced
  \<open>startPolling\<close> of line 142 would run \<open>checkAllWalletsStaggered\<close>: a batch of three, a
  pause of 2000 ms, a batch of one.
\<close>

theorem poll_cycle_is_one_batch:
  "map snd (timers fourWalletsStarted) = [\<lparr> handler = CheckAllWallets, period_ms = 30000 \<rparr>]
   \<and> pollCycles fourWalletsStarted =
       [[Batch [monitored ''0xa'', monitored ''0xb'', monitored ''0xc'', monitored ''0xd'']]]
   \<and> runTimer startPolling_line142 fourWalletsStarted =
       [Batch [monitored ''0xa'', monitored ''0xb'', monitored ''0xc''], Pause 2000,
        Batch [monitored ''0xd'']]"
  by (simp add: fourWalletsStarted_eq pollCycles_def runTimer_def checkAllWallets_def
      checkAllWalletsStaggered_def startPolling_line255_def startPolling_line142_def
      fourWallets_monitored staggeredFrom.simps slice_def)

section \<open>Starting the monitor\<close>

lemma startMonitoring_uninitialized:
  "\<not> truthy_str (tokenAddress m) \<or> \<not> truthy_str (blockchain m) \<Longrightarrow>
     startMonitoring m = (Inl NotInitialized, m)"
  by (auto simp: startMonitoring_def)

lemma startMonitoring_active:
  "ready m \<Longrightarrow> isMonitoring m \<Longrightarrow> startMonitoring m = (Inr True, m)"
  by (simp add: startMonitoring_def ready_def)

lemma startMonitoring_first:
  "ready m \<Longrightarrow> \<not> isMonitoring m \<Longrightarrow>
     startMonitoring m =
       (Inr True, m\<lparr> isMonitoring := True, monitorInterval := Some (nextHandle m),
                     timers := timers m @ [(nextHandle m, startPolling_line255)],
                     nextHandle := nextHandle m + 1 \<rparr>)"
  by (simp add: startMonitoring_def ready_def startPolling_def setInterval_def)

lemma startMonitoringTimes_active:
  "ready m \<Longrightarrow> isMonitoring m \<Longrightarrow>
     startMonitoringTimes n m = (replicate n (Inr True), m)"
  by (induction n) (simp_all add: startMonitoring_active)

lemma startMonitoringTimes_first:
  assumes "ready m" and "\<not> isMonitoring m" and "0 < n"
  shows "startMonitoringTimes n m =
     (replicate n (Inr True),
      m\<lparr> isMonitoring := True, monitorInterval := Some (nextHandle m),
         timers := timers m @ [(nextHandle m, startPolling_line255)],
         nextHandle := nextHandle m + 1 \<rparr>)"
proof -
  from \<open>0 < n\<close> obtain k where n: "n = Suc k" by (cases n) auto
  let ?m1 = "m\<lparr> isMonitoring := True, monitorInterval := Some (nextHandle m),
         timers := timers m @ [(nextHandle m, startPolling_line255)],
         nextHandle := nextHandle m + 1 \<rparr>"
  have r: "startMonitoring m = (Inr True, ?m1)"
    using assms(1,2) by (rule startMonitoring_first)
  have "ready ?m1" "isMonitoring ?m1"
    using assms(1) by (simp_all add: ready_def)
  then have "startMonitoringTimes k ?m1 = (replicate k (Inr True), ?m1)"
    by (rule startMonitoringTimes_active)
  with r show ?thesis unfolding n by simp
qed

text \<open>
  Whatever calls of \<open>initialize\<close>, \<open>startMonitoring\<close> and \<open>stopMonitoring\<close> are made on a
  new monitor, and in whatever order, the monitor holds the handle of the only active
  timer while it is monitoring, and there is no active timer while it is not.
\<close>

lemma timerMatchesState_constructor: "timerMatchesState constructor"
  by (simp add: timerMatchesState_def constructor_def)

lemma timerMatchesState_perform:
  "timerMatchesState m \<Longrightarrow> timerMatchesState (perform m c)"
proof (cases c)
  case (CallInitialize t ch ws)
  assume "timerMatchesState m"
  then show ?thesis
    by (auto simp: CallInitialize timerMatchesState_def initialize_def Let_def
        split: option.splits)
next
  case CallStartMonitoring
  assume "timerMatchesState m"
  then show ?thesis
    by (auto simp: CallStartMonitoring timerMatchesState_def startMonitoring_def
        startPolling_def setInterval_def split: option.splits)
next
  case CallStopMonitoring
  assume "timerMatchesState m"
  then show ?thesis
    by (auto simp: CallStopMonitoring timerMatchesState_def stopMonitoring_def
        clearInterval_def Let_def split: option.splits)
qed

lemma timerMatchesState_foldl:
  "timerMatchesState m \<Longrightarrow> timerMatchesState (foldl perform m calls)"
  by (induction calls arbitrary: m) (simp_all add: timerMatchesState_perform)

lemma timerMatchesState_performAll: "timerMatchesState (performAll calls)"
  unfolding performAll_def
  by (rule timerMatchesState_foldl) (rule timerMatchesState_constructor)

lemma timers_performAll:
  "length (timers (performAll calls)) = (if isMonitoring (performAll calls) then 1 else 0)"
  using timerMatchesState_performAll [of calls]
  by (auto simp: timerMatchesState_def split: option.splits dest: arg_cong [where f = length])

text \<open>
  Claim C6, amended. \<open>startMonitoring\<close> on a monitor without a token address or without
  a blockchain, in particular on one never initialized, fails with an error and leaves
  the state as it was, so no timer is created. On an initialized monitor with at least
  one wallet, a call while monitoring is active returns true and changes nothing, and
  any positive number of successive calls, starting with monitoring inactive and no
  timer, all return true and leave exactly one timer active. On an initialized monitor
  without wallets every call returns false and changes nothing, also while monitoring
  is active. After any sequence of calls of \<open>initialize\<close>, \<open>startMonitoring\<close> and
  \<open>stopMonitoring\<close> on a new monitor, exactly one timer is active if the monitor is
  monitoring, and none otherwise.
\<close>

theorem startMonitoring_lifecycle:
  "startMonitoring constructor = (Inl NotInitialized, constructor)
   \<and> (\<not> truthy_str (tokenAddress m) \<or> \<not> truthy_str (blockchain m)
        \<longrightarrow> startMonitoring m = (Inl NotInitialized, m))
   \<and> (ready m \<and> isMonitoring m \<longrightarrow> startMonitoring m = (Inr True, m))
   \<and> (ready m \<and> \<not> isMonitoring m \<and> timers m = [] \<and> 0 < n
        \<longrightarrow> fst (startMonitoringTimes n m) = replicate n (Inr True)
          \<and> isMonitoring (snd (startMonitoringTimes n m))
          \<and> length (timers (snd (startMonitoringTimes n m))) = 1)
   \<and> (truthy_str (tokenAddress m) \<and> truthy_str (blockchain m) \<and> monitoredWallets m = []
        \<longrightarrow> startMonitoring m = (Inr False, m))
   \<and> length (timers (performAll calls)) = (if isMonitoring (performAll calls) then 1 else 0)"
proof -
  have a: "startMonitoring constructor = (Inl NotInitialized, constructor)"
    by (simp add: startMonitoring_def constructor_def)
  have d: "fst (startMonitoringTimes n m) = replicate n (Inr True)
          \<and> isMonitoring (snd (startMonitoringTimes n m))
          \<and> length (timers (snd (startMonitoringTimes n m))) = 1"
    if "ready m" "\<not> isMonitoring m" "timers m = []" "0 < n"
    using that by (simp add: startMonitoringTimes_first)
  have e: "startMonitoring m = (Inr False, m)"
    if "truthy_str (tokenAddress m)" "truthy_str (blockchain m)" "monitoredWallets m = []"
    using that by (simp add: startMonitoring_def)
  from a d e show ?thesis
    using startMonitoring_uninitialized [of m] startMonitoring_active [of m]
      timers_performAll [of calls]
    by blast
qed

lemma reinitializedEmpty_eq:
  "reinitializedEmpty = fourWalletsStarted\<lparr> monitoredWallets := [] \<rparr>"
  by (simp add: reinitializedEmpty_def initialize_def fourWalletsStarted_eq fourWallets_state
      Let_def)

lemma reinitializedEmpty_reached:
  "reinitializedEmpty =
     performAll
       [CallInitialize (Some ''0xT'') (Some ''ethereum'')
          (Some [walletArg ''0xa'', walletArg ''0xb'', walletArg ''0xc'', walletArg ''0xd'']),
        CallStartMonitoring,
        CallInitialize (Some ''0xT'') (Some ''ethereum'') (Some [])]"
  by (simp add: performAll_def reinitializedEmpty_def fourWalletsStarted_def fourWallets_def)

theorem startMonitoring_lifecycle_witness:
  "ready fourWallets \<and> \<not> isMonitoring fourWallets \<and> timers fourWallets = []
   \<and> fst (startMonitoringTimes 3 fourWallets) = [Inr True, Inr True, Inr True]
   \<and> length (timers (snd (startMonitoringTimes 3 fourWallets))) = 1
   \<and> ready fourWalletsStarted \<and> isMonitoring fourWalletsStarted
   \<and> startMonitoring fourWalletsStarted = (Inr True, fourWalletsStarted)
   \<and> \<not> truthy_str (tokenAddress constructor)
   \<and> startMonitoring constructor = (Inl NotInitialized, constructor)
   \<and> truthy_str (tokenAddress reinitializedEmpty)
   \<and> truthy_str (blockchain reinitializedEmpty)
   \<and> monitoredWallets reinitializedEmpty = []
   \<and> startMonitoring reinitializedEmpty = (Inr False, reinitializedEmpty)"
  using startMonitoring_lifecycle [where m = fourWallets and n = 3 and calls = "[]"]
    startMonitoring_lifecycle [where m = fourWalletsStarted and n = 1 and calls = "[]"]
    startMonitoring_lifecycle [where m = constructor and n = 1 and calls = "[]"]
    startMonitoring_lifecycle [where m = reinitializedEmpty and n = 1 and calls = "[]"]
  by (simp add: fourWallets_ready fourWallets_state ready_def reinitializedEmpty_eq
      fourWalletsStarted_eq fourWallets_monitored constructor_def numeral_3_eq_3)

text \<open>
  Claim C6 as stated fails: the monitor that was initialized with four wallets, started,
  and initialized again with an empty wallet list is still monitoring, with its timer
  active, and \<open>startMonitoring\<close> returns false.
\<close>

theorem startMonitoring_active_returns_false:
  "reinitializedEmpty =
     performAll
       [CallInitialize (Some ''0xT'') (Some ''ethereum'')
          (Some [walletArg ''0xa'', walletArg ''0xb'', walletArg ''0xc'', walletArg ''0xd'']),
        CallStartMonitoring,
        CallInitialize (Some ''0xT'') (Some ''ethereum'') (Some [])]
   \<and> isMonitoring reinitializedEmpty
   \<and> length (timers reinitializedEmpty) = 1
   \<and> startMonitoring reinitializedEmpty = (Inr False, reinitializedEmpty)"
  by (rule conjI [OF reinitializedEmpty_reached])
    (simp add: reinitializedEmpty_eq fourWalletsStarted_eq fourWallets_state
      startMonitoring_def)


end
